theory Spec2Isabelle
  imports Main
begin

section \<open>The TLS session layer of Simba (src/inet/ssl.c)\<close>

text \<open>
  The file keeps one static \<open>struct module_t\<close> and sequences calls into the mbedTLS
  engine. The engine is an external library: its objects (entropy source, random
  generator, configuration, session, certificate chain, key) are opaque to this file,
  which only passes their addresses on. The embedding therefore keeps

  \<^item> the three integer flags of \<open>struct module_t\<close> as they are, and
  \<^item> the engine-owned members as the history of engine calls made so far
    (\<open>engine_log\<close>): the state of an opaque object is what has been done to it.

  The value an engine call returns is not determined by this file, so every function
  that tests an engine result takes that result as a parameter.
\<close>

subsection \<open>Constants, pointers and the caller's structures\<close>

definition EINVAL :: int where
  \<comment> \<open>Modelled from the spec: the errno constant comes from simba.h, which is not among
      the sources; \<open>InvalidArgument\<close> of the spec is \<open>-EINVAL\<close>, and 22 is the
      customary errno value.\<close>
  "EINVAL = 22"

definition ASSERTN :: "bool \<Rightarrow> 'r \<Rightarrow> 'r \<Rightarrow> 'r" where
  \<comment> \<open>Modelled from the spec: the macro \<open>ASSERTN(cond, res)\<close> comes from simba.h, which
      is not among the sources. The spec has the guarded operations fail with the given
      code, so a false condition returns \<open>res\<close> at once and the rest of the body
      (the third argument) does not run.\<close>
  "ASSERTN cond res rest = (if cond then rest else res)"

datatype address = Addr_module_ssl | Addr_module_conf | Addr_other nat

text \<open>A C pointer: \<open>None\<close> is \<open>NULL\<close>.\<close>

type_synonym pointer = "address option"

record ssl_context_t =
  protocol :: int
  conf_p :: pointer

record ssl_socket_t =
  ssl_p :: pointer

subsection \<open>The engine calls and the module state\<close>

text \<open>
  The two certificate arguments the file passes to the engine: \<open>&module.cert\<close>, the
  parsed chain from its first certificate on, and \<open>module.cert.next\<close>, the link out of
  the first certificate, that is the chain after the first certificate.
\<close>

datatype crt_ref = Module_cert | Module_cert_next

text \<open>
  One constructor per mbedTLS function the file calls. Arguments that are fixed
  addresses of members of \<open>module\<close> are left out (the entropy source, the generator,
  the cookie context, the key; \<open>&module.cert\<close> of the two parsers and initialisers);
  the arguments that vary are kept, and so are the certificate arguments of the two
  binding calls and the configuration \<open>mbedtls_ssl_setup\<close> is given.
\<close>

datatype engine_call =
    Mbedtls_entropy_init
  | Mbedtls_ctr_drbg_init
  | Mbedtls_ctr_drbg_seed string nat
  | Mbedtls_ssl_config_init pointer
  | Mbedtls_ssl_cookie_init
  | Mbedtls_x509_crt_init
  | Mbedtls_pk_init
  | Mbedtls_ssl_config_defaults pointer
  | Mbedtls_ssl_conf_rng pointer
  | Mbedtls_x509_crt_parse string nat
  | Mbedtls_pk_parse_key string nat
  | Mbedtls_ssl_conf_ca_chain pointer crt_ref pointer
  | Mbedtls_ssl_conf_own_cert pointer crt_ref
  | Mbedtls_ssl_init pointer
  | Mbedtls_ssl_setup pointer pointer
  | Mbedtls_ssl_set_bio pointer pointer
  | Mbedtls_ssl_handshake pointer
  | Mbedtls_ssl_free pointer
  | Mbedtls_ssl_close_notify pointer
  | Mbedtls_ssl_write pointer pointer nat
  | Mbedtls_ssl_read pointer pointer nat

record module_t =
  initialized :: int
  ssl_allocated :: int
  conf_allocated :: int
  engine_log :: "engine_call list"

definition module :: module_t where
  \<comment> \<open>\<open>static struct module_t module;\<close> starts zeroed.\<close>
  "module = \<lparr>initialized = 0, ssl_allocated = 0, conf_allocated = 0, engine_log = []\<rparr>"

definition engine :: "engine_call \<Rightarrow> module_t \<Rightarrow> module_t" where
  "engine c m = m\<lparr>engine_log := engine_log m @ [c]\<rparr>"

subsection \<open>The slot allocator\<close>

definition alloc_ssl :: "module_t \<Rightarrow> pointer \<times> module_t" where
  "alloc_ssl m =
     (if ssl_allocated m = 1 then (None, m)
      else (Some Addr_module_ssl, m\<lparr>ssl_allocated := 1\<rparr>))"

definition free_ssl :: "pointer \<Rightarrow> module_t \<Rightarrow> module_t" where
  "free_ssl p m = m\<lparr>ssl_allocated := 0\<rparr>"

definition alloc_conf :: "module_t \<Rightarrow> pointer \<times> module_t" where
  "alloc_conf m =
     (if conf_allocated m = 1 then (None, m)
      else (Some Addr_module_conf, m\<lparr>conf_allocated := 1\<rparr>))"

definition free_conf :: "pointer \<Rightarrow> module_t \<Rightarrow> module_t" where
  "free_conf p m = m\<lparr>conf_allocated := 0\<rparr>"

subsection \<open>Module and context\<close>

definition ssl_module_init :: "int \<Rightarrow> module_t \<Rightarrow> int \<times> module_t" where
  \<comment> \<open>\<open>seed_res\<close>: what \<open>mbedtls_ctr_drbg_seed\<close> returns.\<close>
  "ssl_module_init seed_res m =
     (if initialized m = 1 then (0, m)
      else
        let m = m\<lparr>initialized := 1\<rparr>;
            m = engine Mbedtls_entropy_init m;
            m = engine Mbedtls_ctr_drbg_init m;
            m = engine (Mbedtls_ctr_drbg_seed ''hej'' 3) m
        in if seed_res \<noteq> 0 then (- 1, m) else (0, m))"

definition ssl_context_init ::
  "int \<Rightarrow> ssl_context_t option \<Rightarrow> int \<Rightarrow> module_t \<Rightarrow> int \<times> ssl_context_t option \<times> module_t" where
  \<comment> \<open>\<open>defaults_res\<close>: what \<open>mbedtls_ssl_config_defaults\<close> returns. The context
      structure belongs to the caller and is returned as the call leaves it.\<close>
  "ssl_context_init defaults_res self_p prot m =
     (case self_p of
        None \<Rightarrow> (- EINVAL, None, m)
      | Some self \<Rightarrow>
          ASSERTN (initialized m = 1) (- EINVAL, Some self, m)
            (let self = self\<lparr>protocol := prot\<rparr>;
                 (p, m) = alloc_conf m;
                 self = self\<lparr>conf_p := p\<rparr>
             in if conf_p self = None then (- 1, Some self, m)
                else
                  let m = engine (Mbedtls_ssl_config_init (conf_p self)) m;
                      m = engine Mbedtls_ssl_cookie_init m;
                      m = engine Mbedtls_x509_crt_init m;
                      m = engine Mbedtls_pk_init m;
                      m = engine (Mbedtls_ssl_config_defaults (conf_p self)) m
                  in if defaults_res \<noteq> 0 then (- 1, Some self, m)
                     else (0, Some self, engine (Mbedtls_ssl_conf_rng (conf_p self)) m)))"

definition ssl_context_deinit :: "ssl_context_t option \<Rightarrow> module_t \<Rightarrow> int \<times> module_t" where
  "ssl_context_deinit self_p m =
     (case self_p of
        None \<Rightarrow> (- EINVAL, m)
      | Some self \<Rightarrow>
          ASSERTN (conf_p self \<noteq> None) (- EINVAL, m)
            (0, free_conf (conf_p self) m))"

definition ssl_context_load_cert_chain ::
  "int \<Rightarrow> int \<Rightarrow> int \<Rightarrow> ssl_context_t option \<Rightarrow> string option \<Rightarrow> string option \<Rightarrow> module_t
     \<Rightarrow> int \<times> module_t" where
  \<comment> \<open>\<open>crt_res\<close>, \<open>key_res\<close>, \<open>own_res\<close>: what \<open>mbedtls_x509_crt_parse\<close>,
      \<open>mbedtls_pk_parse_key\<close> and \<open>mbedtls_ssl_conf_own_cert\<close> return.\<close>
  "ssl_context_load_cert_chain crt_res key_res own_res self_p cert_p key_p m =
     (case self_p of
        None \<Rightarrow> (- EINVAL, m)
      | Some self \<Rightarrow>
          ASSERTN (conf_p self \<noteq> None) (- EINVAL, m)
            (case cert_p of
               None \<Rightarrow> (- EINVAL, m)
             | Some cert \<Rightarrow>
                 let m = engine (Mbedtls_x509_crt_parse cert (length cert + 1)) m
                 in if crt_res \<noteq> 0 then (- 1, m)
                    else
                      let (key_failed, m) =
                            (case key_p of
                               None \<Rightarrow> (False, m)
                             | Some key \<Rightarrow>
                                 (key_res \<noteq> 0,
                                  engine (Mbedtls_pk_parse_key key (length key + 1)) m))
                      in if key_failed then (- 1, m)
                         else
                           let m = engine (Mbedtls_ssl_conf_ca_chain (conf_p self) Module_cert_next None) m;
                               m = engine (Mbedtls_ssl_conf_own_cert (conf_p self) Module_cert) m
                           in if own_res \<noteq> 0 then (- 1, m) else (0, m)))"

subsection \<open>Sessions\<close>

definition ssl_socket_open ::
  "int \<Rightarrow> int \<Rightarrow> ssl_socket_t option \<Rightarrow> ssl_context_t option \<Rightarrow> pointer \<Rightarrow> int \<Rightarrow> module_t
     \<Rightarrow> int \<times> ssl_socket_t option \<times> module_t" where
  \<comment> \<open>\<open>setup_res\<close>, \<open>handshake_res\<close>: what \<open>mbedtls_ssl_setup\<close> and
      \<open>mbedtls_ssl_handshake\<close> return. The session is set up from \<open>&module.conf\<close>;
      \<open>context_p\<close> is only tested against \<open>NULL\<close>.\<close>
  "ssl_socket_open setup_res handshake_res self_p context_p socket_p mode m =
     ASSERTN (initialized m = 1) (- EINVAL, self_p, m)
       (case self_p of
          None \<Rightarrow> (- EINVAL, None, m)
        | Some self \<Rightarrow>
            ASSERTN (context_p \<noteq> None) (- EINVAL, Some self, m)
           (ASSERTN (socket_p \<noteq> None) (- EINVAL, Some self, m)
              (let (p, m) = alloc_ssl m;
                   self = self\<lparr>ssl_p := p\<rparr>
               in if ssl_p self = None then (- 1, Some self, m)
                  else
                    let m = engine (Mbedtls_ssl_init (ssl_p self)) m;
                        m = engine (Mbedtls_ssl_setup (ssl_p self) (Some Addr_module_conf)) m;
                        res = setup_res
                    in if res \<noteq> 0 then (res, Some self, free_ssl (ssl_p self) m)
                       else
                         let m = engine (Mbedtls_ssl_set_bio (ssl_p self) socket_p) m;
                             m = engine (Mbedtls_ssl_handshake (ssl_p self)) m;
                             res = handshake_res
                         in if res \<noteq> 0
                            then (res, Some self,
                                  free_ssl (ssl_p self)
                                    (engine (Mbedtls_ssl_free (ssl_p self)) m))
                            else (0, Some self, m))))"

definition ssl_socket_close :: "ssl_socket_t option \<Rightarrow> module_t \<Rightarrow> int \<times> module_t" where
  "ssl_socket_close self_p m =
     (case self_p of
        None \<Rightarrow> (- EINVAL, m)
      | Some self \<Rightarrow>
          ASSERTN (ssl_p self \<noteq> None) (- EINVAL, m)
            (let m = engine (Mbedtls_ssl_close_notify (ssl_p self)) m;
                 m = engine (Mbedtls_ssl_free (ssl_p self)) m;
                 m = free_ssl (ssl_p self) m
             in (0, m)))"

definition ssl_socket_write ::
  "int \<Rightarrow> ssl_socket_t option \<Rightarrow> pointer \<Rightarrow> nat \<Rightarrow> module_t \<Rightarrow> int \<times> module_t" where
  \<comment> \<open>\<open>write_res\<close>: what \<open>mbedtls_ssl_write\<close> returns.\<close>
  "ssl_socket_write write_res self_p buf_p len m =
     (case self_p of
        None \<Rightarrow> (- EINVAL, m)
      | Some self \<Rightarrow>
          ASSERTN (ssl_p self \<noteq> None) (- EINVAL, m)
         (ASSERTN (buf_p \<noteq> None) (- EINVAL, m)
            (write_res, engine (Mbedtls_ssl_write (ssl_p self) buf_p len) m)))"

definition ssl_socket_read ::
  "int \<Rightarrow> ssl_socket_t option \<Rightarrow> pointer \<Rightarrow> nat \<Rightarrow> module_t \<Rightarrow> int \<times> module_t" where
  \<comment> \<open>\<open>read_res\<close>: what \<open>mbedtls_ssl_read\<close> returns.\<close>
  "ssl_socket_read read_res self_p buf_p len m =
     (case self_p of
        None \<Rightarrow> (- EINVAL, m)
      | Some self \<Rightarrow>
          ASSERTN (ssl_p self \<noteq> None) (- EINVAL, m)
         (ASSERTN (buf_p \<noteq> None) (- EINVAL, m)
            (read_res, engine (Mbedtls_ssl_read (ssl_p self) buf_p len) m)))"

definition ssl_socket_size :: "ssl_socket_t option \<Rightarrow> int" where
  "ssl_socket_size self_p = (case self_p of None \<Rightarrow> - EINVAL | Some self \<Rightarrow> 0)"

subsection \<open>Callers\<close>

text \<open>
  A caller is a sequence of calls of the nine functions the file exports, with any
  arguments and any engine results. \<open>call\<close> gives the module state one call leaves,
  \<open>calls\<close> the state a sequence leaves.
\<close>

datatype api_call =
    Ssl_module_init int
  | Ssl_context_init int "ssl_context_t option" int
  | Ssl_context_deinit "ssl_context_t option"
  | Ssl_context_load_cert_chain int int int "ssl_context_t option" "string option" "string option"
  | Ssl_socket_open int int "ssl_socket_t option" "ssl_context_t option" pointer int
  | Ssl_socket_close "ssl_socket_t option"
  | Ssl_socket_write int "ssl_socket_t option" pointer nat
  | Ssl_socket_read int "ssl_socket_t option" pointer nat
  | Ssl_socket_size "ssl_socket_t option"

fun call :: "api_call \<Rightarrow> module_t \<Rightarrow> module_t" where
  "call (Ssl_module_init r) m = snd (ssl_module_init r m)"
| "call (Ssl_context_init r c p) m = snd (snd (ssl_context_init r c p m))"
| "call (Ssl_context_deinit c) m = snd (ssl_context_deinit c m)"
| "call (Ssl_context_load_cert_chain r1 r2 r3 c cert key) m =
     snd (ssl_context_load_cert_chain r1 r2 r3 c cert key m)"
| "call (Ssl_socket_open r1 r2 s c sock mode) m =
     snd (snd (ssl_socket_open r1 r2 s c sock mode m))"
| "call (Ssl_socket_close s) m = snd (ssl_socket_close s m)"
| "call (Ssl_socket_write r s buf len) m = snd (ssl_socket_write r s buf len m)"
| "call (Ssl_socket_read r s buf len) m = snd (ssl_socket_read r s buf len m)"
| "call (Ssl_socket_size s) m = m"

fun calls :: "api_call list \<Rightarrow> module_t \<Rightarrow> module_t" where
  "calls [] m = m"
| "calls (c # cs) m = calls cs (call c m)"

subsection \<open>Observations on the engine history\<close>

text \<open>How often the generator has been seeded so far.\<close>

fun is_seed :: "engine_call \<Rightarrow> bool" where
  "is_seed (Mbedtls_ctr_drbg_seed pers len) = True"
| "is_seed other = False"

definition seed_attempts :: "module_t \<Rightarrow> nat" where
  "seed_attempts m = length (filter is_seed (engine_log m))"

text \<open>
  The chain bindings of the configuration are what the two binding calls of the engine
  have been given, in order.
\<close>

fun is_binding :: "engine_call \<Rightarrow> bool" where
  "is_binding (Mbedtls_ssl_conf_ca_chain conf chain crl) = True"
| "is_binding (Mbedtls_ssl_conf_own_cert conf crt) = True"
| "is_binding other = False"

definition conf_bindings :: "module_t \<Rightarrow> engine_call list" where
  "conf_bindings m = filter is_binding (engine_log m)"

subsection \<open>A concrete run\<close>

text \<open>
  The caller's structures before and after a successful initialisation or open, and
  the module state after \<open>ssl_module_init\<close>, after \<open>ssl_context_init\<close> on top of it,
  and after \<open>ssl_socket_open\<close> on top of that, the engine succeeding each time.
\<close>

definition ctx0 :: ssl_context_t where
  "ctx0 = \<lparr>protocol = 0, conf_p = None\<rparr>"

definition ctx1 :: ssl_context_t where
  "ctx1 = \<lparr>protocol = 0, conf_p = Some Addr_module_conf\<rparr>"

definition sock0 :: ssl_socket_t where
  "sock0 = \<lparr>ssl_p = None\<rparr>"

definition sock1 :: ssl_socket_t where
  "sock1 = \<lparr>ssl_p = Some Addr_module_ssl\<rparr>"

definition m_ready :: module_t where
  "m_ready = snd (ssl_module_init 0 module)"

definition m_context :: module_t where
  "m_context = snd (snd (ssl_context_init 0 (Some ctx0) 0 m_ready))"

definition m_session :: module_t where
  "m_session =
     snd (snd (ssl_socket_open 0 0 (Some sock0) (Some ctx1) (Some (Addr_other 1)) 0 m_context))"

section \<open>Properties\<close>

subsection \<open>Unfolding and the concrete run\<close>

lemmas api_defs =
  ssl_module_init_def ssl_context_init_def ssl_context_deinit_def
  ssl_context_load_cert_chain_def ssl_socket_open_def ssl_socket_close_def
  ssl_socket_write_def ssl_socket_read_def ASSERTN_def engine_def alloc_conf_def
  alloc_ssl_def free_conf_def free_ssl_def Let_def

lemmas run_defs = module_def m_ready_def m_context_def m_session_def ctx0_def ctx1_def
  sock0_def sock1_def EINVAL_def

lemma m_session_flags:
  "initialized m_session = 1 \<and> ssl_allocated m_session = 1 \<and> conf_allocated m_session = 1"
  by (simp add: api_defs run_defs)

subsection \<open>What every caller preserves\<close>

text \<open>No function of the file clears \<open>module.initialized\<close>, and only a call that
  finds it clear seeds the generator.\<close>

lemma call_initialized: "initialized m = 1 \<Longrightarrow> initialized (call c m) = 1"
  by (cases c) (auto simp: api_defs split: option.splits if_splits prod.splits)

lemma calls_initialized: "initialized m = 1 \<Longrightarrow> initialized (calls cs m) = 1"
  by (induction cs arbitrary: m) (simp_all add: call_initialized)

lemma call_seed_attempts:
  "initialized m = 1 \<Longrightarrow> seed_attempts (call c m) = seed_attempts m"
  by (cases c) (auto simp: api_defs seed_attempts_def split: option.splits if_splits prod.splits)

lemma calls_seed_attempts:
  "initialized m = 1 \<Longrightarrow> seed_attempts (calls cs m) = seed_attempts m"
  by (induction cs arbitrary: m) (simp_all add: call_initialized call_seed_attempts)

subsection \<open>Module initialisation\<close>

text \<open>
  Claim C4. \<open>ssl_module_init\<close> is idempotent after success: once a call has returned 0,
  a later call, after any sequence \<open>cs\<close> of calls of the file's functions and
  whatever the engine would answer to a seeding (\<open>r\<close>), returns 0 and leaves the
  whole module state as it was: the initialised flag, and the engine history, so that
  neither the entropy source nor the generator is initialised or seeded again.
\<close>

theorem ssl_module_init_idempotent:
  assumes "ssl_module_init seed_res m0 = (0, m1)"
  shows "ssl_module_init r (calls cs m1) = (0, calls cs m1)"
proof -
  have "initialized m1 = 1"
    using assms by (auto simp: ssl_module_init_def Let_def engine_def split: if_splits)
  then have "initialized (calls cs m1) = 1" by (rule calls_initialized)
  then show ?thesis by (simp add: ssl_module_init_def)
qed

theorem ssl_module_init_idempotent_witness:
  "ssl_module_init 0 module = (0, m_ready) \<and>
   ssl_module_init (- 52) (calls [Ssl_context_init 0 (Some ctx0) 0, Ssl_module_init (- 52)] m_ready)
     = (0, calls [Ssl_context_init 0 (Some ctx0) 0, Ssl_module_init (- 52)] m_ready) \<and>
   calls [Ssl_context_init 0 (Some ctx0) 0, Ssl_module_init (- 52)] m_ready = m_context"
proof -
  have first: "ssl_module_init 0 module = (0, m_ready)"
    by (simp add: m_ready_def ssl_module_init_def module_def Let_def)
  have later: "ssl_module_init (- 52)
      (calls [Ssl_context_init 0 (Some ctx0) 0, Ssl_module_init (- 52)] m_ready)
    = (0, calls [Ssl_context_init 0 (Some ctx0) 0, Ssl_module_init (- 52)] m_ready)"
    by (rule ssl_module_init_idempotent [OF first])
  have state: "calls [Ssl_context_init 0 (Some ctx0) 0, Ssl_module_init (- 52)] m_ready = m_context"
    by (simp add: api_defs run_defs)
  from first later state show ?thesis by (intro conjI)
qed

text \<open>
  Claim C9. When the first \<open>ssl_module_init\<close> (the flag still clear) has the seeding of
  the generator fail, it returns \<open>-1\<close> with the flag already set and one seeding
  attempted. Every later call, after any calls \<open>cs\<close> of the file's functions, returns
  0 and leaves the module state as it was, and no call in between seeds either: the
  number of seedings attempted stays what the failed call left.
\<close>

theorem ssl_module_init_seed_failure_masked:
  assumes "initialized m0 \<noteq> 1" and "seed_res \<noteq> 0"
    and "ssl_module_init seed_res m0 = (res, m1)"
  shows "res = - 1 \<and> initialized m1 = 1 \<and> seed_attempts m1 = Suc (seed_attempts m0) \<and>
         ssl_module_init r (calls cs m1) = (0, calls cs m1) \<and>
         seed_attempts (calls cs m1) = seed_attempts m1"
proof -
  from assms have m1: "res = - 1" "initialized m1 = 1" "seed_attempts m1 = Suc (seed_attempts m0)"
    by (auto simp: ssl_module_init_def Let_def engine_def seed_attempts_def)
  from m1(2) have "initialized (calls cs m1) = 1" by (rule calls_initialized)
  then have "ssl_module_init r (calls cs m1) = (0, calls cs m1)"
    by (simp add: ssl_module_init_def)
  with m1 calls_seed_attempts [OF m1(2)] show ?thesis by simp
qed

theorem ssl_module_init_seed_failure_masked_witness:
  "initialized module \<noteq> 1 \<and> (- 52 :: int) \<noteq> 0 \<and>
   fst (ssl_module_init (- 52) module) = - 1 \<and>
   initialized (snd (ssl_module_init (- 52) module)) = 1 \<and>
   seed_attempts (snd (ssl_module_init (- 52) module)) = 1 \<and>
   fst (ssl_module_init 0 (calls [Ssl_module_init 0] (snd (ssl_module_init (- 52) module)))) = 0 \<and>
   seed_attempts (calls [Ssl_module_init 0] (snd (ssl_module_init (- 52) module))) = 1"
proof -
  have a: "initialized module \<noteq> 1" by (simp add: module_def)
  have b: "(- 52 :: int) \<noteq> 0" by simp
  have c: "ssl_module_init (- 52) module =
    (fst (ssl_module_init (- 52) module), snd (ssl_module_init (- 52) module))" by simp
  have d: "seed_attempts module = 0" by (simp add: seed_attempts_def module_def)
  from ssl_module_init_seed_failure_masked [OF a b c, of 0 "[Ssl_module_init 0]"] a b d
  show ?thesis by simp
qed

subsection \<open>Sessions: opening\<close>

text \<open>
  Claim C1. When \<open>ssl_socket_open\<close> has got the session slot (the module is
  initialised, the arguments are not \<open>NULL\<close>, the slot was free) and the engine's
  session setup or the handshake fails, the call returns the engine's error code with
  the slot released: \<open>alloc_ssl\<close> on the state it leaves hands the slot out again, and
  an \<open>ssl_socket_open\<close> that follows at once, the engine succeeding, returns 0 holding
  the slot.
\<close>

theorem ssl_socket_open_failure_frees_slot:
  assumes "initialized m = 1" and "ssl_allocated m \<noteq> 1"
    and "context_p \<noteq> None" and "socket_p \<noteq> None"
    and "setup_res \<noteq> 0 \<or> handshake_res \<noteq> 0"
    and "ssl_socket_open setup_res handshake_res (Some s) context_p socket_p mode m = (res, s', m')"
    and "context_p' \<noteq> None" and "socket_p' \<noteq> None"
    and "ssl_socket_open 0 0 (Some t) context_p' socket_p' mode' m' = (res', t', m'')"
  shows "res = (if setup_res \<noteq> 0 then setup_res else handshake_res) \<and> res \<noteq> 0 \<and>
         ssl_allocated m' = 0 \<and>
         alloc_ssl m' = (Some Addr_module_ssl, m'\<lparr>ssl_allocated := 1\<rparr>) \<and>
         res' = 0 \<and> t' = Some (t\<lparr>ssl_p := Some Addr_module_ssl\<rparr>) \<and> ssl_allocated m'' = 1"
proof -
  from assms(1-6) have first:
    "res = (if setup_res \<noteq> 0 then setup_res else handshake_res)" "res \<noteq> 0"
    "ssl_allocated m' = 0" "initialized m' = 1"
    by (auto simp: ssl_socket_open_def ASSERTN_def alloc_ssl_def free_ssl_def engine_def Let_def
          split: if_splits)
  from first(3) have alloc: "alloc_ssl m' = (Some Addr_module_ssl, m'\<lparr>ssl_allocated := 1\<rparr>)"
    by (simp add: alloc_ssl_def)
  from first(3,4) assms(7-9) have second:
    "res' = 0" "t' = Some (t\<lparr>ssl_p := Some Addr_module_ssl\<rparr>)" "ssl_allocated m'' = 1"
    by (auto simp: ssl_socket_open_def ASSERTN_def alloc_ssl_def engine_def Let_def)
  from first alloc second show ?thesis by simp
qed

theorem ssl_socket_open_failure_frees_slot_witness:
  "initialized m_context = 1 \<and> ssl_allocated m_context \<noteq> 1 \<and>
   fst (ssl_socket_open 0 (- 80) (Some sock0) (Some ctx1) (Some (Addr_other 1)) 0 m_context) = - 80 \<and>
   ssl_allocated
     (snd (snd (ssl_socket_open 0 (- 80) (Some sock0) (Some ctx1) (Some (Addr_other 1)) 0 m_context))) = 0 \<and>
   fst (ssl_socket_open 0 0 (Some sock0) (Some ctx1) (Some (Addr_other 2)) 0
     (snd (snd (ssl_socket_open 0 (- 80) (Some sock0) (Some ctx1) (Some (Addr_other 1)) 0 m_context)))) = 0"
proof -
  have a: "initialized m_context = 1" and b: "ssl_allocated m_context \<noteq> 1"
    by (simp_all add: api_defs run_defs)
  have c: "Some ctx1 \<noteq> None" and d: "Some (Addr_other 1) \<noteq> None" and d': "Some (Addr_other 2) \<noteq> None"
    by simp_all
  have e: "(0::int) \<noteq> 0 \<or> (- 80 :: int) \<noteq> 0" by simp
  obtain res s' m' where f:
    "ssl_socket_open 0 (- 80) (Some sock0) (Some ctx1) (Some (Addr_other 1)) 0 m_context = (res, s', m')"
    by (cases "ssl_socket_open 0 (- 80) (Some sock0) (Some ctx1) (Some (Addr_other 1)) 0 m_context")
  obtain res' t' m'' where g:
    "ssl_socket_open 0 0 (Some sock0) (Some ctx1) (Some (Addr_other 2)) 0 m' = (res', t', m'')"
    by (cases "ssl_socket_open 0 0 (Some sock0) (Some ctx1) (Some (Addr_other 2)) 0 m'")
  from ssl_socket_open_failure_frees_slot [OF a b c d e f c d' g] a b f g
  show ?thesis by simp
qed

subsection \<open>Sessions: size\<close>

text \<open>
  Claim C10. \<open>ssl_socket_size\<close> returns 0 for every session structure, whatever it
  holds; the one test it makes is that the handle is not \<open>NULL\<close>.
\<close>

theorem ssl_socket_size_zero:
  "ssl_socket_size (Some s) = 0 \<and> ssl_socket_size None = - EINVAL"
  by (simp add: ssl_socket_size_def)

subsection \<open>Contexts: initialisation and release\<close>

text \<open>
  Claim C2, evaluated where the code departs from it. On the initialised module with the
  configuration slot free, an \<open>ssl_context_init\<close> whose
  \<open>mbedtls_ssl_config_defaults\<close> fails (here with \<open>-16\<close>) returns \<open>-1\<close> and leaves
  the slot allocated: the next \<open>ssl_context_init\<close>, the engine succeeding, finds the
  slot busy, returns \<open>-1\<close> and hands back no configuration.
\<close>

theorem ssl_context_init_defaults_failure_keeps_slot:
  "fst (ssl_context_init (- 16) (Some ctx0) 0 m_ready) = - 1 \<and>
   conf_allocated m_ready = 0 \<and>
   conf_allocated (snd (snd (ssl_context_init (- 16) (Some ctx0) 0 m_ready))) = 1 \<and>
   fst (ssl_context_init 0 (Some ctx0) 0
          (snd (snd (ssl_context_init (- 16) (Some ctx0) 0 m_ready)))) = - 1 \<and>
   fst (snd (ssl_context_init 0 (Some ctx0) 0
          (snd (snd (ssl_context_init (- 16) (Some ctx0) 0 m_ready))))) = Some ctx0"
  by (simp add: api_defs run_defs)

subsection \<open>The slots are exclusive\<close>

text \<open>
  Claim C3. At most one allocation of each kind is live. While the configuration slot is
  taken, \<open>ssl_context_init\<close> fails and leaves the module state untouched, with \<open>-1\<close>
  when its own preconditions hold. While the session slot is taken, \<open>ssl_socket_open\<close>
  fails likewise, whatever the context argument holds and whatever the state of the
  configuration slot. After a successful \<open>ssl_context_deinit\<close> the configuration slot
  is free, \<open>alloc_conf\<close> hands it out and an \<open>ssl_context_init\<close> succeeds holding
  it; after a successful \<open>ssl_socket_close\<close> the same holds of the session slot and
  \<open>ssl_socket_open\<close> (the engine succeeding in both).
\<close>

theorem slots_exclusive:
  "(conf_allocated m = 1 \<longrightarrow>
      fst (ssl_context_init defaults_res self_p prot m) \<noteq> 0 \<and>
      snd (snd (ssl_context_init defaults_res self_p prot m)) = m \<and>
      (initialized m = 1 \<longrightarrow> self_p \<noteq> None \<longrightarrow>
         fst (ssl_context_init defaults_res self_p prot m) = - 1)) \<and>
   (ssl_allocated m = 1 \<longrightarrow>
      fst (ssl_socket_open setup_res handshake_res sock_p context_p socket_p mode m) \<noteq> 0 \<and>
      snd (snd (ssl_socket_open setup_res handshake_res sock_p context_p socket_p mode m)) = m \<and>
      (initialized m = 1 \<longrightarrow> sock_p \<noteq> None \<longrightarrow> context_p \<noteq> None \<longrightarrow> socket_p \<noteq> None \<longrightarrow>
         fst (ssl_socket_open setup_res handshake_res sock_p context_p socket_p mode m) = - 1)) \<and>
   (initialized m = 1 \<longrightarrow> ssl_context_deinit (Some c) m = (0, mc) \<longrightarrow>
      conf_allocated mc = 0 \<and>
      fst (alloc_conf mc) = Some Addr_module_conf \<and>
      fst (ssl_context_init 0 (Some c') prot mc) = 0 \<and>
      conf_allocated (snd (snd (ssl_context_init 0 (Some c') prot mc))) = 1) \<and>
   (initialized m = 1 \<longrightarrow> ssl_socket_close (Some s) m = (0, ms) \<longrightarrow>
      context_p \<noteq> None \<longrightarrow> socket_p \<noteq> None \<longrightarrow>
      ssl_allocated ms = 0 \<and>
      fst (alloc_ssl ms) = Some Addr_module_ssl \<and>
      fst (ssl_socket_open 0 0 (Some s') context_p socket_p mode ms) = 0 \<and>
      ssl_allocated (snd (snd (ssl_socket_open 0 0 (Some s') context_p socket_p mode ms))) = 1)"
proof (intro conjI impI)
  assume "conf_allocated m = 1"
  then show "fst (ssl_context_init defaults_res self_p prot m) \<noteq> 0"
    and "snd (snd (ssl_context_init defaults_res self_p prot m)) = m"
    by (auto simp: ssl_context_init_def ASSERTN_def alloc_conf_def EINVAL_def Let_def
          split: option.splits)
next
  assume "conf_allocated m = 1" "initialized m = 1" "self_p \<noteq> None"
  then show "fst (ssl_context_init defaults_res self_p prot m) = - 1"
    by (auto simp: ssl_context_init_def ASSERTN_def alloc_conf_def Let_def)
next
  assume "ssl_allocated m = 1"
  then show "fst (ssl_socket_open setup_res handshake_res sock_p context_p socket_p mode m) \<noteq> 0"
    and "snd (snd (ssl_socket_open setup_res handshake_res sock_p context_p socket_p mode m)) = m"
    by (auto simp: ssl_socket_open_def ASSERTN_def alloc_ssl_def EINVAL_def Let_def
          split: option.splits)
next
  assume "ssl_allocated m = 1" "initialized m = 1" "sock_p \<noteq> None" "context_p \<noteq> None"
    "socket_p \<noteq> None"
  then show "fst (ssl_socket_open setup_res handshake_res sock_p context_p socket_p mode m) = - 1"
    by (auto simp: ssl_socket_open_def ASSERTN_def alloc_ssl_def Let_def)
next
  assume "initialized m = 1" "ssl_context_deinit (Some c) m = (0, mc)"
  then have mc: "conf_allocated mc = 0" "initialized mc = 1"
    by (auto simp: ssl_context_deinit_def ASSERTN_def free_conf_def EINVAL_def split: if_splits)
  from mc show "conf_allocated mc = 0" by simp
  from mc show "fst (alloc_conf mc) = Some Addr_module_conf" by (simp add: alloc_conf_def)
  from mc show "fst (ssl_context_init 0 (Some c') prot mc) = 0"
    and "conf_allocated (snd (snd (ssl_context_init 0 (Some c') prot mc))) = 1"
    by (simp_all add: ssl_context_init_def ASSERTN_def alloc_conf_def engine_def Let_def)
next
  assume "initialized m = 1" "ssl_socket_close (Some s) m = (0, ms)"
    and args: "context_p \<noteq> None" "socket_p \<noteq> None"
  then have ms: "ssl_allocated ms = 0" "initialized ms = 1"
    by (auto simp: ssl_socket_close_def ASSERTN_def free_ssl_def engine_def EINVAL_def Let_def
          split: if_splits)
  from ms show "ssl_allocated ms = 0" by simp
  from ms show "fst (alloc_ssl ms) = Some Addr_module_ssl" by (simp add: alloc_ssl_def)
  from ms args show "fst (ssl_socket_open 0 0 (Some s') context_p socket_p mode ms) = 0"
    and "ssl_allocated (snd (snd (ssl_socket_open 0 0 (Some s') context_p socket_p mode ms))) = 1"
    by (simp_all add: ssl_socket_open_def ASSERTN_def alloc_ssl_def engine_def Let_def)
qed

theorem slots_exclusive_witness:
  "conf_allocated m_session = 1 \<and> ssl_allocated m_session = 1 \<and> initialized m_session = 1 \<and>
   ssl_context_init 0 (Some ctx0) 0 m_session = (- 1, Some ctx0, m_session) \<and>
   ssl_socket_open 0 0 (Some sock0) (Some ctx0) (Some (Addr_other 2)) 0 m_session
     = (- 1, Some sock0, m_session) \<and>
   ssl_context_deinit (Some ctx1) m_session = (0, m_session\<lparr>conf_allocated := 0\<rparr>) \<and>
   fst (ssl_context_init 0 (Some ctx0) 0 (m_session\<lparr>conf_allocated := 0\<rparr>)) = 0 \<and>
   conf_allocated
     (snd (snd (ssl_context_init 0 (Some ctx0) 0 (m_session\<lparr>conf_allocated := 0\<rparr>)))) = 1 \<and>
   fst (ssl_socket_close (Some sock1) m_session) = 0 \<and>
   fst (ssl_socket_open 0 0 (Some sock0) (Some ctx0) (Some (Addr_other 2)) 0
          (snd (ssl_socket_close (Some sock1) m_session))) = 0 \<and>
   ssl_allocated
     (snd (snd (ssl_socket_open 0 0 (Some sock0) (Some ctx0) (Some (Addr_other 2)) 0
        (snd (ssl_socket_close (Some sock1) m_session))))) = 1"
proof -
  have flags: "conf_allocated m_session = 1" "ssl_allocated m_session = 1"
    "initialized m_session = 1"
    using m_session_flags by simp_all
  have deinit: "ssl_context_deinit (Some ctx1) m_session = (0, m_session\<lparr>conf_allocated := 0\<rparr>)"
    by (simp add: ssl_context_deinit_def ASSERTN_def free_conf_def ctx1_def)
  have close: "ssl_socket_close (Some sock1) m_session
      = (0, snd (ssl_socket_close (Some sock1) m_session))"
    by (simp add: ssl_socket_close_def ASSERTN_def sock1_def Let_def)
  have close0: "fst (ssl_socket_close (Some sock1) m_session) = 0"
    by (simp add: ssl_socket_close_def ASSERTN_def sock1_def Let_def)
  have args: "Some sock0 \<noteq> None" "Some ctx0 \<noteq> None" "Some (Addr_other 2) \<noteq> None"
    by simp_all
  note inst = slots_exclusive [where m = m_session and self_p = "Some ctx0" and prot = 0
      and defaults_res = 0 and setup_res = 0 and handshake_res = 0 and sock_p = "Some sock0"
      and context_p = "Some ctx0" and socket_p = "Some (Addr_other 2)" and mode = 0
      and c = ctx1 and mc = "m_session\<lparr>conf_allocated := 0\<rparr>" and c' = ctx0
      and s = sock1 and ms = "snd (ssl_socket_close (Some sock1) m_session)" and s' = sock0]
  have busy_ctx: "ssl_context_init 0 (Some ctx0) 0 m_session = (- 1, Some ctx0, m_session)"
    by (simp add: ssl_context_init_def ASSERTN_def alloc_conf_def flags ctx0_def Let_def)
  have busy_sock: "ssl_socket_open 0 0 (Some sock0) (Some ctx0) (Some (Addr_other 2)) 0 m_session
     = (- 1, Some sock0, m_session)"
    by (simp add: ssl_socket_open_def ASSERTN_def alloc_ssl_def flags sock0_def Let_def)
  from inst flags deinit close close0 args busy_ctx busy_sock show ?thesis
    by simp
qed

subsection \<open>Contexts: release\<close>

text \<open>
  Claim C5 as stated fails: \<open>ssl_context_deinit\<close> does not reset \<open>conf_p\<close>, so a
  second release of the same context passes the guard and returns 0.
\<close>

theorem ssl_context_deinit_twice_counterexample:
  "ssl_context_init 0 (Some ctx0) 0 m_ready = (0, Some ctx1, m_context) \<and>
   conf_allocated m_context = 1 \<and>
   fst (ssl_context_deinit (Some ctx1) m_context) = 0 \<and>
   conf_allocated (snd (ssl_context_deinit (Some ctx1) m_context)) = 0 \<and>
   fst (ssl_context_deinit (Some ctx1) (snd (ssl_context_deinit (Some ctx1) m_context))) = 0 \<and>
   fst (ssl_context_deinit (Some ctx1) (snd (ssl_context_deinit (Some ctx1) m_context))) \<noteq> - EINVAL"
  by (simp add: api_defs run_defs)

text \<open>
  Claim C5, amended. \<open>ssl_context_deinit\<close> fails with \<open>-EINVAL\<close>, the module
  unchanged, exactly when the handle is \<open>NULL\<close> or the context's \<open>conf_p\<close> is
  \<open>NULL\<close>; in every other case it returns 0 and clears the configuration-slot flag.
\<close>

theorem ssl_context_deinit_guard:
  "ssl_context_deinit None m = (- EINVAL, m) \<and>
   ssl_context_deinit (Some c) m =
     (if conf_p c = None then (- EINVAL, m) else (0, m\<lparr>conf_allocated := 0\<rparr>))"
  by (simp add: ssl_context_deinit_def ASSERTN_def free_conf_def)

subsection \<open>Sessions: closing and use after close\<close>

text \<open>
  Claim C6 as stated fails: \<open>ssl_socket_close\<close> does not reset \<open>ssl_p\<close>, so closing
  a session a second time returns 0, and so does closing a session whose handshake
  failed in \<open>ssl_socket_open\<close>.
\<close>

theorem ssl_socket_close_twice_counterexample:
  "ssl_socket_open 0 0 (Some sock0) (Some ctx1) (Some (Addr_other 1)) 0 m_context
     = (0, Some sock1, m_session) \<and>
   ssl_allocated m_session = 1 \<and>
   fst (ssl_socket_close (Some sock1) m_session) = 0 \<and>
   ssl_allocated (snd (ssl_socket_close (Some sock1) m_session)) = 0 \<and>
   fst (ssl_socket_close (Some sock1) (snd (ssl_socket_close (Some sock1) m_session))) = 0 \<and>
   fst (ssl_socket_close (Some sock1) (snd (ssl_socket_close (Some sock1) m_session))) \<noteq> - EINVAL \<and>
   fst (ssl_socket_open 0 (- 80) (Some sock0) (Some ctx1) (Some (Addr_other 1)) 0 m_context) = - 80 \<and>
   fst (snd (ssl_socket_open 0 (- 80) (Some sock0) (Some ctx1) (Some (Addr_other 1)) 0 m_context))
     = Some sock1 \<and>
   fst (ssl_socket_close (Some sock1)
     (snd (snd (ssl_socket_open 0 (- 80) (Some sock0) (Some ctx1) (Some (Addr_other 1)) 0 m_context))))
     = 0"
  by (simp add: api_defs run_defs)

text \<open>
  Claim C6, amended. \<open>ssl_socket_close\<close> fails with \<open>-EINVAL\<close>, the module
  unchanged, exactly when the handle is \<open>NULL\<close> or the session's \<open>ssl_p\<close> is
  \<open>NULL\<close>; in every other case it has the engine send the close-notify and free the
  session, clears the session-slot flag and returns 0.
\<close>

theorem ssl_socket_close_guard:
  "ssl_socket_close None m = (- EINVAL, m) \<and>
   ssl_socket_close (Some s) m =
     (if ssl_p s = None then (- EINVAL, m)
      else (0, m\<lparr>ssl_allocated := 0,
                  engine_log := engine_log m @
                    [Mbedtls_ssl_close_notify (ssl_p s), Mbedtls_ssl_free (ssl_p s)]\<rparr>))"
  by (simp add: ssl_socket_close_def ASSERTN_def free_ssl_def engine_def Let_def)

text \<open>
  Claim C7 as stated fails: after a successful \<open>ssl_socket_close\<close> the session still
  holds its \<open>ssl_p\<close>, so \<open>ssl_socket_write\<close> and \<open>ssl_socket_read\<close> call the engine
  and return what it returns (here \<open>-28928\<close>), not \<open>-EINVAL\<close>.
\<close>

theorem ssl_socket_write_after_close_counterexample:
  "fst (ssl_socket_close (Some sock1) m_session) = 0 \<and>
   ssl_socket_write (- 28928) (Some sock1) (Some (Addr_other 2)) 4
       (snd (ssl_socket_close (Some sock1) m_session))
     = (- 28928, engine (Mbedtls_ssl_write (Some Addr_module_ssl) (Some (Addr_other 2)) 4)
          (snd (ssl_socket_close (Some sock1) m_session))) \<and>
   ssl_socket_read (- 28928) (Some sock1) (Some (Addr_other 2)) 4
       (snd (ssl_socket_close (Some sock1) m_session))
     = (- 28928, engine (Mbedtls_ssl_read (Some Addr_module_ssl) (Some (Addr_other 2)) 4)
          (snd (ssl_socket_close (Some sock1) m_session))) \<and>
   (- 28928 :: int) \<noteq> - EINVAL"
  by (simp add: api_defs run_defs)

text \<open>
  Claim C7, amended. \<open>ssl_socket_write\<close> and \<open>ssl_socket_read\<close> reject a call, that
  is return \<open>-EINVAL\<close> with the module unchanged and the engine not called, exactly
  when the handle, the session's \<open>ssl_p\<close> or the buffer is \<open>NULL\<close>; otherwise they call
  the engine once and return its result as it is, whatever that code is. In particular,
  after a successful \<open>ssl_socket_close\<close> of a session, a write or read on it with a
  buffer calls the engine on the session's \<open>ssl_p\<close> and returns the engine's result.
\<close>

theorem ssl_socket_write_read_guard:
  "ssl_socket_write res None buf_p len m = (- EINVAL, m) \<and>
   ssl_socket_read res None buf_p len m = (- EINVAL, m) \<and>
   ssl_socket_write res (Some s) buf_p len m =
     (if ssl_p s = None \<or> buf_p = None then (- EINVAL, m)
      else (res, engine (Mbedtls_ssl_write (ssl_p s) buf_p len) m)) \<and>
   ssl_socket_read res (Some s) buf_p len m =
     (if ssl_p s = None \<or> buf_p = None then (- EINVAL, m)
      else (res, engine (Mbedtls_ssl_read (ssl_p s) buf_p len) m)) \<and>
   (ssl_socket_write res self_p buf_p len m = (- EINVAL, m)) =
     (self_p = None \<or> (\<exists>t. self_p = Some t \<and> ssl_p t = None) \<or> buf_p = None) \<and>
   (ssl_socket_read res self_p buf_p len m = (- EINVAL, m)) =
     (self_p = None \<or> (\<exists>t. self_p = Some t \<and> ssl_p t = None) \<or> buf_p = None) \<and>
   (ssl_socket_close (Some s) m = (0, m') \<longrightarrow> buf_p \<noteq> None \<longrightarrow>
      ssl_socket_write res (Some s) buf_p len m'
        = (res, engine (Mbedtls_ssl_write (ssl_p s) buf_p len) m') \<and>
      ssl_socket_read res (Some s) buf_p len m'
        = (res, engine (Mbedtls_ssl_read (ssl_p s) buf_p len) m'))"
proof -
  have grows: "engine c m \<noteq> m" for c
  proof
    assume "engine c m = m"
    then have "engine_log (engine c m) = engine_log m" by simp
    then show False by (simp add: engine_def)
  qed
  have w: "(ssl_socket_write res self_p buf_p len m = (- EINVAL, m)) =
     (self_p = None \<or> (\<exists>t. self_p = Some t \<and> ssl_p t = None) \<or> buf_p = None)"
    using grows by (cases self_p) (auto simp: ssl_socket_write_def ASSERTN_def)
  have r: "(ssl_socket_read res self_p buf_p len m = (- EINVAL, m)) =
     (self_p = None \<or> (\<exists>t. self_p = Some t \<and> ssl_p t = None) \<or> buf_p = None)"
    using grows by (cases self_p) (auto simp: ssl_socket_read_def ASSERTN_def)
  have rest: "ssl_socket_write res None buf_p len m = (- EINVAL, m) \<and>
   ssl_socket_read res None buf_p len m = (- EINVAL, m) \<and>
   ssl_socket_write res (Some s) buf_p len m =
     (if ssl_p s = None \<or> buf_p = None then (- EINVAL, m)
      else (res, engine (Mbedtls_ssl_write (ssl_p s) buf_p len) m)) \<and>
   ssl_socket_read res (Some s) buf_p len m =
     (if ssl_p s = None \<or> buf_p = None then (- EINVAL, m)
      else (res, engine (Mbedtls_ssl_read (ssl_p s) buf_p len) m))"
    by (simp add: ssl_socket_write_def ssl_socket_read_def ASSERTN_def)
  have after: "ssl_socket_close (Some s) m = (0, m') \<longrightarrow> buf_p \<noteq> None \<longrightarrow>
      ssl_socket_write res (Some s) buf_p len m'
        = (res, engine (Mbedtls_ssl_write (ssl_p s) buf_p len) m') \<and>
      ssl_socket_read res (Some s) buf_p len m'
        = (res, engine (Mbedtls_ssl_read (ssl_p s) buf_p len) m')"
    by (auto simp: ssl_socket_write_def ssl_socket_read_def ssl_socket_close_def ASSERTN_def
          EINVAL_def split: if_splits)
  from rest w r after show ?thesis by blast
qed

theorem ssl_socket_write_read_guard_witness:
  "ssl_socket_close (Some sock1) m_session = (0, snd (ssl_socket_close (Some sock1) m_session)) \<and>
   Some (Addr_other 2) \<noteq> None \<and>
   ssl_socket_write 4 (Some sock1) (Some (Addr_other 2)) 4 (snd (ssl_socket_close (Some sock1) m_session))
     = (4, engine (Mbedtls_ssl_write (Some Addr_module_ssl) (Some (Addr_other 2)) 4)
          (snd (ssl_socket_close (Some sock1) m_session))) \<and>
   ssl_socket_read 0 (Some sock1) (Some (Addr_other 2)) 4 (snd (ssl_socket_close (Some sock1) m_session))
     = (0, engine (Mbedtls_ssl_read (Some Addr_module_ssl) (Some (Addr_other 2)) 4)
          (snd (ssl_socket_close (Some sock1) m_session)))"
proof -
  have a: "ssl_socket_close (Some sock1) m_session = (0, snd (ssl_socket_close (Some sock1) m_session))"
    by (simp add: ssl_socket_close_def ASSERTN_def sock1_def Let_def)
  have b: "Some (Addr_other 2) \<noteq> None" by simp
  have p: "ssl_p sock1 = Some Addr_module_ssl" by (simp add: sock1_def)
  from ssl_socket_write_read_guard
         [where res = 4 and buf_p = "Some (Addr_other 2)" and len = 4 and m = m_session
            and s = sock1 and self_p = "Some sock1"
            and m' = "snd (ssl_socket_close (Some sock1) m_session)"]
       ssl_socket_write_read_guard
         [where res = 0 and buf_p = "Some (Addr_other 2)" and len = 4 and m = m_session
            and s = sock1 and self_p = "Some sock1"
            and m' = "snd (ssl_socket_close (Some sock1) m_session)"]
       a b p
  show ?thesis by simp
qed

subsection \<open>Loading the certificate chain\<close>

text \<open>
  Claim C8. On a context that holds a configuration and with a certificate buffer,
  \<open>ssl_context_load_cert_chain\<close> has the engine parse the certificate buffer (its
  length counting the terminator); if that fails it returns \<open>-1\<close> and the chain
  bindings of the configuration are as before. It has the engine parse the key buffer
  only when there is one; if that fails it returns \<open>-1\<close>, the bindings again as
  before. Otherwise it sets the CA chain of the configuration to \<open>module.cert.next\<close>,
  the certificates after the first, and binds \<open>module.cert\<close>, the chain from its first
  certificate, with the module's key as own certificate, returning 0 unless the engine
  refuses that binding.
\<close>

theorem ssl_context_load_cert_chain_steps:
  assumes "conf_p c \<noteq> None"
    and "ssl_context_load_cert_chain crt_res key_res own_res (Some c) (Some cert) key_p m = (res, m')"
  shows
    "(crt_res \<noteq> 0 \<longrightarrow>
        res = - 1 \<and> m' = engine (Mbedtls_x509_crt_parse cert (length cert + 1)) m \<and>
        conf_bindings m' = conf_bindings m) \<and>
     (crt_res = 0 \<longrightarrow> key_p = Some key \<longrightarrow> key_res \<noteq> 0 \<longrightarrow>
        res = - 1 \<and>
        engine_log m' = engine_log m @
          [Mbedtls_x509_crt_parse cert (length cert + 1),
           Mbedtls_pk_parse_key key (length key + 1)] \<and>
        conf_bindings m' = conf_bindings m) \<and>
     (crt_res = 0 \<longrightarrow> (key_p = None \<or> key_res = 0) \<longrightarrow>
        res = (if own_res \<noteq> 0 then - 1 else 0) \<and>
        engine_log m' = engine_log m @
          [Mbedtls_x509_crt_parse cert (length cert + 1)] @
          (case key_p of None \<Rightarrow> []
           | Some key \<Rightarrow> [Mbedtls_pk_parse_key key (length key + 1)]) @
          [Mbedtls_ssl_conf_ca_chain (conf_p c) Module_cert_next None,
           Mbedtls_ssl_conf_own_cert (conf_p c) Module_cert] \<and>
        conf_bindings m' = conf_bindings m @
          [Mbedtls_ssl_conf_ca_chain (conf_p c) Module_cert_next None,
           Mbedtls_ssl_conf_own_cert (conf_p c) Module_cert])"
  using assms
  by (auto simp: ssl_context_load_cert_chain_def ASSERTN_def engine_def conf_bindings_def Let_def
        split: option.splits if_splits)

theorem ssl_context_load_cert_chain_steps_witness:
  "conf_p ctx1 \<noteq> None \<and>
   fst (ssl_context_load_cert_chain 0 0 0 (Some ctx1) (Some ''crt'') (Some ''key'') m_context) = 0 \<and>
   engine_log (snd (ssl_context_load_cert_chain 0 0 0 (Some ctx1) (Some ''crt'') (Some ''key'') m_context))
     = engine_log m_context @
         [Mbedtls_x509_crt_parse ''crt'' 4, Mbedtls_pk_parse_key ''key'' 4,
          Mbedtls_ssl_conf_ca_chain (Some Addr_module_conf) Module_cert_next None,
          Mbedtls_ssl_conf_own_cert (Some Addr_module_conf) Module_cert] \<and>
   conf_bindings (snd (ssl_context_load_cert_chain 0 0 0 (Some ctx1) (Some ''crt'') (Some ''key'') m_context))
     = [Mbedtls_ssl_conf_ca_chain (Some Addr_module_conf) Module_cert_next None,
        Mbedtls_ssl_conf_own_cert (Some Addr_module_conf) Module_cert] \<and>
   fst (ssl_context_load_cert_chain (- 8576) 0 0 (Some ctx1) (Some ''bad'') None m_context) = - 1 \<and>
   conf_bindings (snd (ssl_context_load_cert_chain (- 8576) 0 0 (Some ctx1) (Some ''bad'') None m_context))
     = []"
proof -
  have a: "conf_p ctx1 \<noteq> None" by (simp add: ctx1_def)
  have p: "conf_p ctx1 = Some Addr_module_conf" by (simp add: ctx1_def)
  have b: "ssl_context_load_cert_chain 0 0 0 (Some ctx1) (Some ''crt'') (Some ''key'') m_context
    = (fst (ssl_context_load_cert_chain 0 0 0 (Some ctx1) (Some ''crt'') (Some ''key'') m_context),
       snd (ssl_context_load_cert_chain 0 0 0 (Some ctx1) (Some ''crt'') (Some ''key'') m_context))"
    by simp
  have c: "ssl_context_load_cert_chain (- 8576) 0 0 (Some ctx1) (Some ''bad'') None m_context
    = (fst (ssl_context_load_cert_chain (- 8576) 0 0 (Some ctx1) (Some ''bad'') None m_context),
       snd (ssl_context_load_cert_chain (- 8576) 0 0 (Some ctx1) (Some ''bad'') None m_context))"
    by simp
  have none: "conf_bindings m_context = []"
    by (simp add: conf_bindings_def api_defs run_defs)
  from ssl_context_load_cert_chain_steps [OF a b, of "''key''"]
       ssl_context_load_cert_chain_steps [OF a c, of "''key''"] a p none
  show ?thesis by (simp add: conf_bindings_def engine_def)
qed

end
